theory Spec2Isabelle
  imports Main
begin

section \<open>Item type registry (inventory.py, main.py)\<close>

text \<open>
  Every subclass of \<open>Inventory\<close> carries a class attribute \<open>cls_item_type\<close> (the name of
  its table) and sets \<open>self.fields\<close> in its constructor. Nothing else of the class matters
  to the query layer, so an item type is the record of these two.
\<close>

record item_schema =
  cls_item_type :: string
  fields_of :: "string list"

definition Book :: item_schema where
  "Book = \<lparr>cls_item_type = ''book'', fields_of = [''name'', ''author'', ''genre'', ''date'']\<rparr>"

definition Magazine :: item_schema where
  "Magazine = \<lparr>cls_item_type = ''magazine'',
     fields_of = [''name'', ''publisher'', ''genre'', ''date'']\<rparr>"

definition Journal :: item_schema where
  "Journal = \<lparr>cls_item_type = ''journal'',
     fields_of = [''name'', ''author'', ''journal_name'', ''volume'', ''issue'', ''format'']\<rparr>"

definition Manga :: item_schema where
  "Manga = \<lparr>cls_item_type = ''manga'',
     fields_of = [''name'', ''author'', ''publisher'', ''format'']\<rparr>"

definition WesternComic :: item_schema where
  "WesternComic = \<lparr>cls_item_type = ''western_comic'',
     fields_of = [''name'', ''author'', ''publisher'', ''format'']\<rparr>"

definition ResearchPaper :: item_schema where
  "ResearchPaper = \<lparr>cls_item_type = ''research_paper'',
     fields_of = [''name'', ''author'', ''journal_name'', ''abstract'', ''keywords'', ''date'']\<rparr>"

text \<open>
  \<open>item_types\<close> of main.py is a dict from menu keys to classes. A Python dict iterates in
  insertion order, and the query layer only iterates over \<open>item_types.values()\<close>, so the
  registry is an association list and \<open>values\<close> reads its second components in order.
\<close>

type_synonym registry = "(string \<times> item_schema) list"

definition item_types :: registry where
  "item_types = [(''1'', Book), (''2'', Magazine), (''3'', Journal), (''4'', Manga),
     (''5'', WesternComic), (''6'', ResearchPaper)]"

definition values_of :: "registry \<Rightarrow> item_schema list" where
  "values_of reg = map snd reg"

section \<open>The unified column set (transaction\_manager.py)\<close>

text \<open>
  \<open>OrderedSet(xs)\<close> of the ordered\_set package adds the elements of \<open>xs\<close> one by one; an
  element already present is skipped, a new one is appended at the end. \<open>list(...)\<close> reads
  the elements back in that order.
\<close>

definition ordered_set_add :: "'a list \<Rightarrow> 'a \<Rightarrow> 'a list" where
  "ordered_set_add items x = (if x \<in> set items then items else items @ [x])"

definition OrderedSet :: "'a list \<Rightarrow> 'a list" where
  "OrderedSet xs = foldl ordered_set_add [] xs"

text \<open>
  The loop \<open>for item_cls in self.item_types.values(): common_columns.extend(item_cls().fields)\<close>
  followed by \<open>common_columns = list(OrderedSet(common_columns))\<close>. The same four lines
  stand in three methods; each gets its own definition, translated from its own lines.
\<close>

definition extend_fields :: "item_schema list \<Rightarrow> string list" where
  "extend_fields clss = foldl (\<lambda>common_columns item_cls. common_columns @ fields_of item_cls) [] clss"

definition search_common_columns :: "registry \<Rightarrow> string list" where
  "search_common_columns reg = OrderedSet (extend_fields (values_of reg))"

definition added_common_columns :: "registry \<Rightarrow> string list" where
  "added_common_columns reg =
     OrderedSet (foldl (\<lambda>common_columns item_cls. common_columns @ fields_of item_cls) []
       (values_of reg))"

definition history_common_columns :: "registry \<Rightarrow> string list" where
  "history_common_columns reg =
     (let common_columns =
        foldl (\<lambda>common_columns item_cls. common_columns @ fields_of item_cls) [] (values_of reg)
      in OrderedSet common_columns)"

text \<open>The position at which a value is first seen in a list (its length when absent).\<close>

definition first_seen :: "'a list \<Rightarrow> 'a \<Rightarrow> nat" where
  "first_seen xs x = length (takeWhile (\<lambda>y. y \<noteq> x) xs)"

section \<open>The relational store (the sqlite3 engine behind managers.py)\<close>

text \<open>
  A value of a result row, as the sqlite3 module hands it to Python: \<open>None\<close>, an int, a str
  or bytes. The transaction dates are TEXT written by \<open>strftime("%Y-%m-%d")\<close>; such a text is
  represented by the ordinal of its calendar day (\<open>Date\<close>, day 1 being 0001-01-01), so that
  adding a \<open>timedelta\<close> of \<open>n\<close> days is adding \<open>n\<close>. Python ints are unbounded and are taken
  as \<open>int\<close>. A str is the list of the bytes of its UTF-8 encoding, so every string of the
  model can be encoded and bound (a Python str holding a lone surrogate, which cannot, has
  no counterpart here).
\<close>

datatype sqlval = Null | Integer int | Text string | Blob string | Date int

text \<open>
  The store holds integers of 64 bits; the sqlite3 module raises OverflowError when it is
  asked to bind a Python int outside that range.
\<close>

definition int64 :: "int \<Rightarrow> bool" where
  "int64 i = (- 9223372036854775808 \<le> i \<and> i \<le> 9223372036854775807)"

text \<open>
  \<open>sqlite3.Error\<close>, by the subclass raised: a missing table or column and a statement that
  does not parse are an OperationalError, a violated PRIMARY KEY an IntegrityError, a wrong
  number of bound parameters a ProgrammingError. The text of the message is not modelled.
\<close>

datatype sqlite_error = OperationalError | IntegrityError | ProgrammingError

text \<open>
  The exceptions of Python that the calls modelled here can raise. \<open>Sqlite3_Error\<close> is an
  instance of \<open>sqlite3.Error\<close>, the one class that \<open>DBManager\<close> catches; the others are
  instances of \<open>Exception\<close> only.
\<close>

datatype exception =
    Sqlite3_Error sqlite_error
  | OverflowError
  | ValueError
  | TypeError
  | IndexError

text \<open>
  The table \<open>transactions(id, user_name, item_type, item_id, borrow_date, due_date,
  return_date, status)\<close> of \<open>setup_transactions_table\<close>. \<open>id\<close> is a constant of HOL, so the
  column \<open>id\<close> is the field \<open>id_tx\<close>.
\<close>

record transaction =
  id_tx :: int
  user_name :: string
  item_type :: string
  item_id :: int
  borrow_date :: int
  due_date :: int
  return_date :: "int option"
  status :: string

text \<open>
  A row of an item table: the INTEGER PRIMARY KEY \<open>id\<close>, and one TEXT cell (or NULL, here
  \<open>None\<close>) for every other column, \<open>user_name\<close> among them.
\<close>

record item_row =
  row_id :: int
  cell :: "string \<Rightarrow> string option"

record item_table =
  columns :: "string list"
  rows :: "item_row list"

text \<open>
  The database file. A table that was never created is \<open>None\<close>; a statement on it fails
  with "no such table". \<open>users\<close> holds pairs (user\_name, password hash), \<open>user_name\<close> being
  its PRIMARY KEY.
\<close>

record database =
  users :: "(string \<times> string) list option"
  transactions :: "transaction list option"
  item_tables :: "string \<Rightarrow> item_table option"

text \<open>The lower case of the 26 ASCII letters, as SQLite compares names and LIKE operands.\<close>

definition ascii_lower :: "char \<Rightarrow> char" where
  "ascii_lower c =
     (case map_of (zip ''ABCDEFGHIJKLMNOPQRSTUVWXYZ'' ''abcdefghijklmnopqrstuvwxyz'') c of
        Some l \<Rightarrow> l
      | None \<Rightarrow> c)"



definition setup_transactions_table :: "database \<Rightarrow> database" where
  "setup_transactions_table db =
     (case transactions db of Some ts \<Rightarrow> db | None \<Rightarrow> db\<lparr>transactions := Some []\<rparr>)"


subsection \<open>The LIKE operator\<close>

text \<open>
  SQLite's LIKE: \<open>%\<close> in the pattern matches any run of characters (the empty one too),
  \<open>_\<close> matches exactly one character, any other character matches itself, upper and lower
  case of the 26 ASCII letters being equal. No escape character is set by this program.
\<close>

fun like :: "string \<Rightarrow> string \<Rightarrow> bool" where
  "like [] s = (s = [])"
| "like (p # ps) [] = (p = CHR ''%'' \<and> like ps [])"
| "like (p # ps) (c # cs) =
     (if p = CHR ''%'' then like ps (c # cs) \<or> like (p # ps) cs
      else (p = CHR ''_'' \<or> ascii_lower p = ascii_lower c) \<and> like ps cs)"

text \<open>The decimal text of an integer: LIKE reads a numeric operand as its text.\<close>

fun decimal_nat :: "nat \<Rightarrow> string" where
  "decimal_nat n =
     (if n < 10 then [''0123456789'' ! n]
      else decimal_nat (n div 10) @ [''0123456789'' ! (n mod 10)])"

definition decimal :: "int \<Rightarrow> string" where
  "decimal i = (if i < 0 then CHR ''-'' # decimal_nat (nat (- i)) else decimal_nat (nat i))"

text \<open>
  The value of column \<open>c\<close> in a row of an item table, as a result cell and as the text LIKE
  sees (\<open>None\<close> for NULL: \<open>NULL LIKE p\<close> is not true for any pattern).
\<close>

definition col_value :: "item_row \<Rightarrow> string \<Rightarrow> sqlval" where
  "col_value r c =
     (if c = ''id'' then Integer (row_id r)
      else case cell r c of None \<Rightarrow> Null | Some s \<Rightarrow> Text s)"

definition col_text :: "item_row \<Rightarrow> string \<Rightarrow> string option" where
  "col_text r c = (if c = ''id'' then Some (decimal (row_id r)) else cell r c)"

definition col_like :: "item_row \<Rightarrow> string \<times> string \<Rightarrow> bool" where
  "col_like r cp = (case col_text r (fst cp) of None \<Rightarrow> False | Some s \<Rightarrow> like (snd cp) s)"

subsection \<open>Statements\<close>

text \<open>
  A result column of a SELECT: a column of the table (\<open>c\<close> or \<open>c AS c\<close>) or \<open>NULL AS c\<close>; the
  column list is \<open>*\<close> or a list of these. \<open>select_core\<close> is one
  \<open>SELECT '<category>' as Category, <columns> FROM <table> WHERE c1 LIKE ? OR ... OR cn LIKE ?\<close>.
\<close>

datatype column_expr = Col string | NullAs string

datatype projection = Star | Columns "column_expr list"

record select_core =
  sel_category :: string
  sel_columns :: projection
  sel_table :: string
  sel_like :: "string list"

text \<open>
  The statements this program sends to the engine, each with its bound parameters in the
  order of its \<open>?\<close> marks:
  \<^item> \<open>Select_active_borrows\<close>: \<open>SELECT * FROM transactions WHERE item_id = ? AND item_type = ?
    AND status = 'borrowed'\<close>;
  \<^item> \<open>Insert_transaction\<close>: \<open>INSERT INTO transactions (user_name, item_type, item_id,
    borrow_date, due_date, status) VALUES (?, ?, ?, ?, ?, 'borrowed')\<close>;
  \<^item> \<open>Select_borrow_of_user\<close>: \<open>SELECT * FROM transactions WHERE id = ? AND user_name = ?
    AND status = 'borrowed'\<close>;
  \<^item> \<open>Update_returned\<close>: \<open>UPDATE transactions SET return_date = ?, status = 'returned'
    WHERE id = ?\<close>;
  \<^item> \<open>Insert_user\<close>: \<open>INSERT INTO users (user_name, password) VALUES (?, ?)\<close>;
  \<^item> \<open>Select_password\<close>: \<open>SELECT password FROM users WHERE user_name = ?\<close>;
  \<^item> \<open>Insert_item\<close>: \<open>INSERT INTO <table> (<columns>) VALUES (?, ..., ?)\<close>, one \<open>?\<close> per
    column, with the table, the columns and the values bound;
  \<^item> \<open>Select_like\<close>: one \<open>select_core\<close>; \<open>Union_like\<close>: several, joined by UNION.
\<close>

datatype statement =
    Select_active_borrows int string
  | Insert_transaction string string int int int
  | Select_borrow_of_user int string
  | Update_returned int int
  | Insert_user string string
  | Select_password string
  | Insert_item string "string list" "string option list"
  | Select_like select_core "string list"
  | Union_like "select_core list" "string list"


definition transaction_tuple :: "transaction \<Rightarrow> sqlval list" where
  "transaction_tuple t =
     [Integer (id_tx t), Text (user_name t), Text (item_type t), Integer (item_id t),
      Date (borrow_date t), Date (due_date t),
      (case return_date t of None \<Rightarrow> Null | Some d \<Rightarrow> Date d), Text (status t)]"

text \<open>
  AUTOINCREMENT: a new row gets an id one larger than the largest id the table has ever
  held, and 1 in an empty table. No statement of this program deletes a row, so the largest
  id ever held is the largest id present.
\<close>

definition next_id :: "transaction list \<Rightarrow> int" where
  "next_id ts = foldr max (map id_tx ts) 0 + 1"

definition next_row_id :: "item_row list \<Rightarrow> int" where
  "next_row_id rs = foldr max (map row_id rs) 0 + 1"

text \<open>The columns of the table a SELECT names, and its row as the SELECT projects it.\<close>

definition referenced :: "select_core \<Rightarrow> string list" where
  "referenced sc =
     sel_like sc @
     (case sel_columns sc of
        Star \<Rightarrow> []
      | Columns es \<Rightarrow> concat (map (\<lambda>e. case e of Col c \<Rightarrow> [c] | NullAs c \<Rightarrow> []) es))"

definition project :: "item_table \<Rightarrow> projection \<Rightarrow> item_row \<Rightarrow> sqlval list" where
  "project t p r =
     (case p of
        Star \<Rightarrow> map (col_value r) (columns t)
      | Columns es \<Rightarrow> map (\<lambda>e. case e of Col c \<Rightarrow> col_value r c | NullAs c \<Rightarrow> Null) es)"

definition select_width :: "item_table \<Rightarrow> projection \<Rightarrow> nat" where
  "select_width t p = Suc (case p of Star \<Rightarrow> length (columns t) | Columns es \<Rightarrow> length es)"

text \<open>
  One SELECT: a missing table, an empty WHERE clause (the text ends after \<open>WHERE\<close>) and a
  column the table does not have are errors found when the statement is compiled.
\<close>

definition eval_select :: "database \<Rightarrow> select_core \<Rightarrow> string list \<Rightarrow> sqlite_error + sqlval list list"
  where
  "eval_select db sc pats =
     (case item_tables db (sel_table sc) of
        None \<Rightarrow> Inl OperationalError
      | Some t \<Rightarrow>
          if sel_like sc = [] then Inl OperationalError
          else if \<not> set (referenced sc) \<subseteq> set (columns t) then Inl OperationalError
          else Inr (map (\<lambda>r. Text (sel_category sc) # project t (sel_columns sc) r)
                 (filter (\<lambda>r. list_ex (col_like r) (zip (sel_like sc) pats)) (rows t))))"

text \<open>
  The sub-selects of a UNION take their parameters from the one tuple, in order. The
  engine refuses sub-selects of different widths. UNION keeps one copy of every row. SQL
  fixes no order of the result (SQLite returns the rows sorted); the model keeps them in the
  order of the sub-selects, and every theorem below reads the result as a set.
\<close>

fun eval_selects :: "database \<Rightarrow> select_core list \<Rightarrow> string list \<Rightarrow> sqlite_error + sqlval list list list"
  where
  "eval_selects db [] pats = Inr []"
| "eval_selects db (sc # scs) pats =
     (case eval_select db sc (take (length (sel_like sc)) pats) of
        Inl e \<Rightarrow> Inl e
      | Inr rs \<Rightarrow>
          (case eval_selects db scs (drop (length (sel_like sc)) pats) of
             Inl e \<Rightarrow> Inl e
           | Inr rss \<Rightarrow> Inr (rs # rss)))"

definition widths :: "database \<Rightarrow> select_core list \<Rightarrow> nat list" where
  "widths db scs =
     map (\<lambda>sc. case item_tables db (sel_table sc) of
                 None \<Rightarrow> 0
               | Some t \<Rightarrow> select_width t (sel_columns sc)) scs"

definition bindings :: "select_core list \<Rightarrow> nat" where
  "bindings scs = sum_list (map (\<lambda>sc. length (sel_like sc)) scs)"

text \<open>
  \<open>cursor.execute(query, params)\<close> on a database: the exception raised, or the rows a later
  \<open>cursor.fetchall()\<close> returns together with the database after the statement. The
  statement is compiled first (a missing table or column, a text that does not parse: an
  OperationalError), then the parameters are bound (a wrong number of them: a
  ProgrammingError; an int outside 64 bits: an OverflowError, which is no \<open>sqlite3.Error\<close>),
  then the statement runs (a user name already present: an IntegrityError).
\<close>

definition sqlite :: "statement \<Rightarrow> database \<Rightarrow> exception + (sqlval list list \<times> database)"
  where
  "sqlite stmt db =
     (case stmt of
        Select_active_borrows i ty \<Rightarrow>
          (case transactions db of
             None \<Rightarrow> Inl (Sqlite3_Error OperationalError)
           | Some ts \<Rightarrow>
               if \<not> int64 i then Inl OverflowError
               else Inr (map transaction_tuple
                      (filter (\<lambda>t. item_id t = i \<and> item_type t = ty \<and> status t = ''borrowed'') ts),
                    db))
      | Insert_transaction u ty i bd dd \<Rightarrow>
          (case transactions db of
             None \<Rightarrow> Inl (Sqlite3_Error OperationalError)
           | Some ts \<Rightarrow>
               if \<not> int64 i then Inl OverflowError
               else Inr ([], db\<lparr>transactions := Some (ts @
                      [\<lparr>id_tx = next_id ts, user_name = u, item_type = ty, item_id = i,
                        borrow_date = bd, due_date = dd, return_date = None,
                        status = ''borrowed''\<rparr>])\<rparr>))
      | Select_borrow_of_user tid u \<Rightarrow>
          (case transactions db of
             None \<Rightarrow> Inl (Sqlite3_Error OperationalError)
           | Some ts \<Rightarrow>
               if \<not> int64 tid then Inl OverflowError
               else Inr (map transaction_tuple
                      (filter (\<lambda>t. id_tx t = tid \<and> user_name t = u \<and> status t = ''borrowed'') ts),
                    db))
      | Update_returned rd tid \<Rightarrow>
          (case transactions db of
             None \<Rightarrow> Inl (Sqlite3_Error OperationalError)
           | Some ts \<Rightarrow>
               if \<not> int64 tid then Inl OverflowError
               else Inr ([], db\<lparr>transactions := Some (map
                      (\<lambda>t. if id_tx t = tid
                           then t\<lparr>return_date := Some rd, status := ''returned''\<rparr> else t) ts)\<rparr>))
      | Insert_user u h \<Rightarrow>
          (case users db of
             None \<Rightarrow> Inl (Sqlite3_Error OperationalError)
           | Some us \<Rightarrow>
               if u \<in> set (map fst us) then Inl (Sqlite3_Error IntegrityError)
               else Inr ([], db\<lparr>users := Some (us @ [(u, h)])\<rparr>))
      | Select_password u \<Rightarrow>
          (case users db of
             None \<Rightarrow> Inl (Sqlite3_Error OperationalError)
           | Some us \<Rightarrow> Inr (map (\<lambda>a. [Blob (snd a)]) (filter (\<lambda>a. fst a = u) us), db))
      | Insert_item name cols vals \<Rightarrow>
          (case item_tables db name of
             None \<Rightarrow> Inl (Sqlite3_Error OperationalError)
           | Some t \<Rightarrow>
               if \<not> set cols \<subseteq> set (columns t) then Inl (Sqlite3_Error OperationalError)
               else if length vals \<noteq> length cols then Inl (Sqlite3_Error ProgrammingError)
               else Inr ([], db\<lparr>item_tables := (item_tables db)(name := Some
                      (t\<lparr>rows := rows t @
                         [\<lparr>row_id = next_row_id (rows t),
                           cell = (\<lambda>c. case map_of (zip cols vals) c of
                                        None \<Rightarrow> None
                                      | Some v \<Rightarrow> v)\<rparr>]\<rparr>))\<rparr>))
      | Select_like sc pats \<Rightarrow>
          (case eval_select db sc pats of
             Inl e \<Rightarrow> Inl (Sqlite3_Error e)
           | Inr rs \<Rightarrow>
               if length pats \<noteq> length (sel_like sc) then Inl (Sqlite3_Error ProgrammingError)
               else Inr (rs, db))
      | Union_like scs pats \<Rightarrow>
          (case eval_selects db scs pats of
             Inl e \<Rightarrow> Inl (Sqlite3_Error e)
           | Inr rss \<Rightarrow>
               if \<not> list_all (\<lambda>w. w = hd (widths db scs)) (widths db scs)
               then Inl (Sqlite3_Error OperationalError)
               else if length pats \<noteq> bindings scs then Inl (Sqlite3_Error ProgrammingError)
               else Inr (remdups (concat rss), db)))"

declare decimal_nat.simps [simp del]

section \<open>DBManager (managers.py)\<close>

text \<open>
  What \<open>Utils.rich_print\<close> writes to the console, one constructor per message of the
  methods modelled here, with the exception or the value the message shows. The methods
  tell their outcome to the user through these messages, so a method's model returns the
  list of messages it printed, in order, next to what the method returns or raises.
\<close>

datatype notice =
    Error_executing_query sqlite_error
  | Error_fetching_data sqlite_error
  | Item_currently_borrowed
  | Item_borrowed_successfully int
  | Error_borrowing_item exception
  | No_active_borrow_found
  | Item_returned_successfully
  | Error_returning_item exception
  | Error_during_search_of_item_type exception
  | Search_results_retrieved
  | Error_during_search exception
  | Added_to_inventory string
  | Error_adding_to_inventory exception
  | User_registered string
  | User_already_exist string
  | Welcome_back string
  | Invalid_user_name_or_password

text \<open>
  \<open>execute\<close>: run the statement and commit; on \<open>sqlite3.Error\<close> print and raise again. The
  result is \<open>Inl\<close> of the exception raised or \<open>Inr\<close> of the database after the statement.
  \<open>fetchall\<close>: run the statement and return the rows; on \<open>sqlite3.Error\<close> print and return
  the empty list. An exception of another class passes through both methods, nothing being
  printed. The methods below pass SELECT statements only to \<open>fetchall\<close>, which leave the
  database as it is, so \<open>fetchall\<close> returns no database.
\<close>

definition execute :: "statement \<Rightarrow> database \<Rightarrow> notice list \<times> (exception + database)" where
  "execute query db =
     (case sqlite query db of
        Inr (result, db') \<Rightarrow> ([], Inr db')
      | Inl (Sqlite3_Error e) \<Rightarrow> ([Error_executing_query e], Inl (Sqlite3_Error e))
      | Inl x \<Rightarrow> ([], Inl x))"

definition fetchall ::
  "statement \<Rightarrow> database \<Rightarrow> notice list \<times> (exception + sqlval list list)" where
  "fetchall query db =
     (case sqlite query db of
        Inr (result, db') \<Rightarrow> ([], Inr result)
      | Inl (Sqlite3_Error e) \<Rightarrow> ([Error_fetching_data e], Inr [])
      | Inl x \<Rightarrow> ([], Inl x))"

section \<open>TransactionManager: borrowing and returning (transaction\_manager.py)\<close>

text \<open>
  The two operations of \<open>datetime\<close> that \<open>borrow_item\<close> uses, on day ordinals.
  \<open>timedelta(days=n)\<close> raises OverflowError unless \<open>n\<close> is at most 999999999 in magnitude;
  adding a \<open>timedelta\<close> to a \<open>datetime\<close> raises OverflowError unless the result lies in the
  years 1 to 9999, that is, unless its day is one of the days 1 to 3652059.
\<close>

definition timedelta :: "int \<Rightarrow> exception + int" where
  "timedelta days =
     (if - 999999999 \<le> days \<and> days \<le> 999999999 then Inr days else Inl OverflowError)"

definition valid_day :: "int \<Rightarrow> bool" where
  "valid_day d = (1 \<le> d \<and> d \<le> 3652059)"

definition datetime_plus :: "int \<Rightarrow> int \<Rightarrow> exception + int" where
  "datetime_plus day delta =
     (if valid_day (day + delta) then Inr (day + delta) else Inl OverflowError)"

text \<open>
  \<open>borrow_item\<close> and \<open>return_item\<close>. \<open>user_name\<close> is the attribute \<open>self.user_name\<close> of the
  manager. \<open>borrow_item\<close> reads the clock twice: \<open>now_borrow\<close> is the day of the first
  reading (the borrow date), \<open>now_due\<close> the day of the second, to which the duration is
  added; \<open>return_item\<close> reads it once. The result is the messages printed, the outcome of
  the call (\<open>Inr ()\<close>: the method returns, and what it returns is \<open>None\<close>; \<open>Inl x\<close>: it
  raises \<open>x\<close>) and the database afterwards. The SELECT stands before the \<open>try\<close>, so what
  \<open>fetchall\<close> raises leaves the method; \<open>except Exception\<close> catches what the computation of
  the due date and \<open>execute\<close> raise.
\<close>

definition borrow_item ::
  "string \<Rightarrow> string \<Rightarrow> int \<Rightarrow> int \<Rightarrow> int \<Rightarrow> int \<Rightarrow> database
     \<Rightarrow> notice list \<times> (exception + unit) \<times> database" where
  "borrow_item self_user_name itype iid borrow_duration_days now_borrow now_due db =
     (case fetchall (Select_active_borrows iid itype) db of
        (out, Inl x) \<Rightarrow> (out, Inl x, db)
      | (out, Inr active_borrows) \<Rightarrow>
          if active_borrows \<noteq> [] then (out @ [Item_currently_borrowed], Inr (), db)
          else
            (let borrow_date = now_borrow
             in case timedelta borrow_duration_days of
                  Inl x \<Rightarrow> (out @ [Error_borrowing_item x], Inr (), db)
                | Inr delta \<Rightarrow>
                    (case datetime_plus now_due delta of
                       Inl x \<Rightarrow> (out @ [Error_borrowing_item x], Inr (), db)
                     | Inr due \<Rightarrow>
                         (let due_date = due
                          in case execute
                                 (Insert_transaction self_user_name itype iid borrow_date due_date)
                                 db of
                               (out', Inr db') \<Rightarrow>
                                 (out @ out' @ [Item_borrowed_successfully due_date], Inr (), db')
                             | (out', Inl x) \<Rightarrow>
                                 (out @ out' @ [Error_borrowing_item x], Inr (), db)))))"


definition return_item ::
  "string \<Rightarrow> int \<Rightarrow> int \<Rightarrow> database \<Rightarrow> notice list \<times> (exception + unit) \<times> database" where
  "return_item self_user_name transaction_id today db =
     (case fetchall (Select_borrow_of_user transaction_id self_user_name) db of
        (out, Inl x) \<Rightarrow> (out, Inl x, db)
      | (out, Inr transaction) \<Rightarrow>
          if transaction = [] then (out @ [No_active_borrow_found], Inr (), db)
          else
            (let return_date = today
             in case execute (Update_returned return_date transaction_id) db of
                  (out', Inr db') \<Rightarrow> (out @ out' @ [Item_returned_successfully], Inr (), db')
                | (out', Inl x) \<Rightarrow> (out @ out' @ [Error_returning_item x], Inr (), db)))"

text \<open>
  The ledger is the content of the transactions table (no rows when the table is missing).
  A run of the program is a sequence of borrow and return calls, each by some logged-in
  user at some time. A call that raises ends the process; the database file stays as that
  call left it, and the next call of the sequence belongs to the next start of the program.
\<close>

definition ledger :: "database \<Rightarrow> transaction list" where
  "ledger db = (case transactions db of None \<Rightarrow> [] | Some ts \<Rightarrow> ts)"

definition active :: "string \<Rightarrow> int \<Rightarrow> transaction \<Rightarrow> bool" where
  "active itype iid t = (item_id t = iid \<and> item_type t = itype \<and> status t = ''borrowed'')"

definition active_count :: "database \<Rightarrow> string \<Rightarrow> int \<Rightarrow> nat" where
  "active_count db itype iid = length (filter (active itype iid) (ledger db))"

datatype action =
    Borrow string string int int int int
  | Return string int int

fun perform :: "database \<Rightarrow> action \<Rightarrow> database" where
  "perform db (Borrow u itype iid days now_borrow now_due) =
     snd (snd (borrow_item u itype iid days now_borrow now_due db))"
| "perform db (Return u tid today) = snd (snd (return_item u tid today db))"

definition run :: "action list \<Rightarrow> database \<Rightarrow> database" where
  "run acts db = foldl perform db acts"

text \<open>The ledger invariant: no item has two active borrows.\<close>

definition at_most_one_active :: "database \<Rightarrow> bool" where
  "at_most_one_active db = (\<forall>itype iid. active_count db itype iid \<le> 1)"

section \<open>TransactionManager: searching (transaction\_manager.py)\<close>







text \<open>
  The words of the specification: a text contains a term as a case-insensitive substring.
  \<open>ci_prefix w s\<close>: \<open>s\<close> starts with \<open>w\<close> up to the case of ASCII letters.
\<close>

fun ci_prefix :: "string \<Rightarrow> string \<Rightarrow> bool" where
  "ci_prefix [] s = True"
| "ci_prefix (c # cs) [] = False"
| "ci_prefix (c # cs) (d # ds) = (ascii_lower c = ascii_lower d \<and> ci_prefix cs ds)"

fun contains_ci :: "string \<Rightarrow> string \<Rightarrow> bool" where
  "contains_ci w [] = (w = [])"
| "contains_ci w (d # ds) = (ci_prefix w (d # ds) \<or> contains_ci w ds)"







section \<open>UserManager (managers.py)\<close>













section \<open>Start of the program (main.py)\<close>

text \<open>
  \<open>sqlite3.connect\<close> on a new file gives a database without tables; \<open>main\<close> then creates
  the transactions table, the users table and one table per item type of the registry.
\<close>

definition new_database :: database where
  "new_database = \<lparr>users = None, transactions = None, item_tables = (\<lambda>name. None)\<rparr>"



section \<open>Adding an item (inventory.py)\<close>



text \<open>The row of that book, as the INSERT of \<open>add_to_inventory\<close> stores it.\<close>

definition dune :: item_row where
  "dune = \<lparr>row_id = 1, cell = (\<lambda>c. case map_of (zip [''name'', ''author'', ''genre'', ''date'', ''user_name'']
       [Some ''Dune'', Some ''Frank Herbert'', Some ''SciFi'', None, Some ''alice'']) c of
                                        None \<Rightarrow> None
                                      | Some v \<Rightarrow> v)\<rparr>"


section \<open>The text of the queries that name the current user (transaction\_manager.py)\<close>

text \<open>
  The query text and the tuple of bound parameters, as \<open>get_borrowed_given_item\<close>,
  \<open>get_items_added_by_user\<close> and \<open>get_transaction_history\<close> pass them to \<open>fetchall\<close>. The
  f-strings are written out piece by piece, line breaks and indentation included.
\<close>

fun join :: "string \<Rightarrow> string list \<Rightarrow> string" where
  "join sep [] = []"
| "join sep [x] = x"
| "join sep (x # y # ys) = x @ sep @ join sep (y # ys)"

definition newline :: string where
  "newline = [CHR 0x0A]"

definition indent :: "nat \<Rightarrow> string" where
  "indent n = replicate n (CHR '' '')"

definition get_borrowed_given_item_query ::
  "string \<Rightarrow> item_schema \<Rightarrow> string \<Rightarrow> string \<times> sqlval list" where
  "get_borrowed_given_item_query self_user_name itype search_word =
     (let fields = fields_of itype;
          cls = cls_item_type itype;
          like_clauses = join '' OR '' (map (\<lambda>field. field @ '' LIKE ?'') fields);
          query = newline
            @ indent 8 @ ''SELECT t.id as TransactionId, i.*'' @ newline
            @ indent 8 @ ''FROM transactions t'' @ newline
            @ indent 8 @ ''JOIN '' @ cls @ '' i ON t.item_id = i.id'' @ newline
            @ indent 8 @ ''WHERE t.user_name = ? AND t.item_type='' @ [CHR 0x27] @ cls @ [CHR 0x27]
            @ '' AND t.status = 'borrowed' AND '' @ like_clauses @ newline
            @ indent 8;
          params = Text self_user_name # map (\<lambda>_. Text (''%'' @ search_word @ ''%'')) fields
      in (query, params))"

definition get_items_added_by_user_query :: "string \<Rightarrow> registry \<Rightarrow> string \<times> sqlval list" where
  "get_items_added_by_user_query self_user_name reg =
     (let common_columns = added_common_columns reg;
          sub_queries = map (\<lambda>item_obj.
            (let table_name = cls_item_type item_obj;
                 select_columns =
                   map (\<lambda>col. if col \<in> set (fields_of item_obj) then col else ''NULL AS '' @ col)
                     common_columns
             in newline
               @ indent 16 @ ''SELECT '' @ [CHR 0x27] @ table_name @ [CHR 0x27] @ '' as category, ''
               @ join '', '' select_columns @ '', user_name'' @ newline
               @ indent 16 @ ''FROM '' @ table_name @ newline
               @ indent 16 @ ''WHERE user_name = '' @ [CHR 0x27] @ self_user_name @ [CHR 0x27] @ newline
               @ indent 12)) (values_of reg);
          query = join (newline @ '' UNION ALL '' @ newline) sub_queries;
          final_query = ''SELECT Category, '' @ join '', '' common_columns
            @ '', user_name FROM ('' @ query @ '')''
      in (final_query, []))"

definition get_transaction_history_query ::
  "string \<Rightarrow> registry \<Rightarrow> bool \<Rightarrow> string \<times> sqlval list" where
  "get_transaction_history_query self_user_name reg is_active =
     (let extra_columns = [''borrow_date'', ''due_date'', ''return_date'', ''status''];
          common_columns = history_common_columns reg;
          sub_queries = map (\<lambda>item_obj.
            (let table_name = cls_item_type item_obj;
                 select_columns =
                   map (\<lambda>col. if col \<in> set (fields_of item_obj) then col else ''NULL AS '' @ col)
                     common_columns @ extra_columns;
                 borrow_filter =
                   (if is_active then ''AND t.status = '' @ [CHR 0x27] @ ''borrowed'' @ [CHR 0x27]
                    else [])
             in newline
               @ indent 16 @ ''SELECT '' @ [CHR 0x27] @ table_name @ [CHR 0x27]
               @ '' as Category, t.id as TransactionId, '' @ join '', '' select_columns
               @ '', t.user_name as user_name'' @ newline
               @ indent 16 @ ''FROM transactions t'' @ newline
               @ indent 16 @ ''JOIN '' @ table_name @ '' b ON t.item_id = b.id'' @ newline
               @ indent 16 @ ''WHERE t.item_type = '' @ [CHR 0x27] @ table_name @ [CHR 0x27]
               @ '' AND t.user_name = '' @ [CHR 0x27] @ self_user_name @ [CHR 0x27] @ '' ''
               @ borrow_filter @ newline
               @ indent 16)) (values_of reg);
          query = join (newline @ '' UNION ALL '' @ newline) sub_queries;
          query = (if is_active
                   then newline
                     @ indent 12 @ ''SELECT * FROM ('' @ query @ '') '' @ newline
                     @ indent 12 @ ''ORDER BY ABS(julianday(due_date) - julianday(borrow_date)) ASC''
                     @ newline
                     @ indent 12
                   else query)
      in (query, []))"

text \<open>A text occurs in another (for reading a query text).\<close>

fun starts_with :: "string \<Rightarrow> string \<Rightarrow> bool" where
  "starts_with [] s = True"
| "starts_with (c # cs) [] = False"
| "starts_with (c # cs) (d # ds) = (c = d \<and> starts_with cs ds)"

fun occurs_in :: "string \<Rightarrow> string \<Rightarrow> bool" where
  "occurs_in w [] = (w = [])"
| "occurs_in w (d # ds) = (starts_with w (d # ds) \<or> occurs_in w ds)"

section \<open>Properties of the unified column set\<close>

lemma foldl_add_set: "set (foldl ordered_set_add acc xs) = set acc \<union> set xs"
  by (induction xs arbitrary: acc) (auto simp: ordered_set_add_def)

lemma foldl_add_distinct: "distinct acc \<Longrightarrow> distinct (foldl ordered_set_add acc xs)"
  by (induction xs arbitrary: acc) (auto simp: ordered_set_add_def)

lemma foldl_add_absorb: "set xs \<subseteq> set acc \<Longrightarrow> foldl ordered_set_add acc xs = acc"
  by (induction xs arbitrary: acc) (auto simp: ordered_set_add_def)

lemma foldl_add_distinct_id:
  "distinct xs \<Longrightarrow> set acc \<inter> set xs = {} \<Longrightarrow> foldl ordered_set_add acc xs = acc @ xs"
  by (induction xs arbitrary: acc) (auto simp: ordered_set_add_def)

lemma OrderedSet_set: "set (OrderedSet xs) = set xs"
  by (simp add: OrderedSet_def foldl_add_set)

lemma OrderedSet_distinct: "distinct (OrderedSet xs)"
  by (simp add: OrderedSet_def foldl_add_distinct)

lemma OrderedSet_distinct_id: "distinct xs \<Longrightarrow> OrderedSet xs = xs"
  using foldl_add_distinct_id [of xs "[]"] by (simp add: OrderedSet_def)

lemma OrderedSet_idem: "OrderedSet (OrderedSet xs) = OrderedSet xs"
  by (simp add: OrderedSet_distinct_id OrderedSet_distinct)

lemma foldl_extend_concat:
  "foldl (\<lambda>common_columns item_cls. common_columns @ fields_of item_cls) acc clss
     = acc @ concat (map fields_of clss)"
  by (induction clss arbitrary: acc) auto

lemma extend_fields_concat: "extend_fields clss = concat (map fields_of clss)"
  by (simp add: extend_fields_def foldl_extend_concat)

lemma first_seen_append:
  "first_seen (xs @ ys) x = (if x \<in> set xs then first_seen xs x else length xs + first_seen ys x)"
  by (induction xs) (auto simp: first_seen_def)

lemma first_seen_less: "x \<in> set xs \<Longrightarrow> first_seen xs x < length xs"
  by (induction xs) (auto simp: first_seen_def)

lemma first_seen_Cons: "first_seen (a # xs) x = (if x = a then 0 else Suc (first_seen xs x))"
  by (simp add: first_seen_def)

lemma foldl_add_order:
  "x \<in> set (acc @ xs) \<Longrightarrow> y \<in> set (acc @ xs) \<Longrightarrow>
   (first_seen (foldl ordered_set_add acc xs) x < first_seen (foldl ordered_set_add acc xs) y)
     = (first_seen (acc @ xs) x < first_seen (acc @ xs) y)"
proof (induction xs arbitrary: acc)
  case Nil
  then show ?case by simp
next
  case (Cons a xs)
  show ?case
  proof (cases "a \<in> set acc")
    case True
    then have acc': "ordered_set_add acc a = acc" by (simp add: ordered_set_add_def)
    from True Cons.prems have mem: "x \<in> set (acc @ xs)" "y \<in> set (acc @ xs)" by auto
    have "(first_seen (acc @ a # xs) x < first_seen (acc @ a # xs) y)
        = (first_seen (acc @ xs) x < first_seen (acc @ xs) y)"
      using True first_seen_less [of x acc] first_seen_less [of y acc]
      by (auto simp: first_seen_append first_seen_Cons)
    with Cons.IH [OF mem] acc' show ?thesis by simp
  next
    case False
    then have acc': "ordered_set_add acc a = acc @ [a]" by (simp add: ordered_set_add_def)
    from Cons.prems have mem: "x \<in> set ((acc @ [a]) @ xs)" "y \<in> set ((acc @ [a]) @ xs)" by auto
    from Cons.IH [OF mem] acc' show ?thesis by simp
  qed
qed

lemma OrderedSet_order:
  "x \<in> set xs \<Longrightarrow> y \<in> set xs \<Longrightarrow>
   (first_seen (OrderedSet xs) x < first_seen (OrderedSet xs) y) = (first_seen xs x < first_seen xs y)"
  using foldl_add_order [of x "[]" xs y] by (simp add: OrderedSet_def)

text \<open>
  Claim C5. The unified column list of a registry (\<open>unionColumns\<close> of the specification,
  \<open>common_columns\<close> of the code) holds exactly the field names of the registry's item
  types, each once; two names stand in it in the order in which they are first seen when
  the field lists are read one item type after the other; building the ordered set of the
  result again, or the unified list of a single item type whose fields are the result,
  gives the result back; and the result depends on nothing but the sequence of field
  lists, so every call on the same registry gives the same ordered list.
\<close>

theorem common_columns_ordered_union:
  "set (search_common_columns reg) = (\<Union>c \<in> set (values_of reg). set (fields_of c))
   \<and> distinct (search_common_columns reg)
   \<and> (\<forall>x \<in> set (search_common_columns reg). \<forall>y \<in> set (search_common_columns reg).
        (first_seen (search_common_columns reg) x < first_seen (search_common_columns reg) y)
          = (first_seen (extend_fields (values_of reg)) x
              < first_seen (extend_fields (values_of reg)) y))
   \<and> OrderedSet (search_common_columns reg) = search_common_columns reg
   \<and> search_common_columns [(k, \<lparr>cls_item_type = n, fields_of = search_common_columns reg\<rparr>)]
        = search_common_columns reg
   \<and> (map (\<lambda>kv. fields_of (snd kv)) reg' = map (\<lambda>kv. fields_of (snd kv)) reg
        \<longrightarrow> search_common_columns reg' = search_common_columns reg)"
proof -
  let ?all = "extend_fields (values_of reg)"
  have cc: "search_common_columns reg = OrderedSet ?all"
    by (simp add: search_common_columns_def)
  have 1: "set (search_common_columns reg) = (\<Union>c \<in> set (values_of reg). set (fields_of c))"
    by (simp add: cc OrderedSet_set extend_fields_concat)
  have 2: "distinct (search_common_columns reg)"
    by (simp add: cc OrderedSet_distinct)
  have 3: "\<forall>x \<in> set (search_common_columns reg). \<forall>y \<in> set (search_common_columns reg).
        (first_seen (search_common_columns reg) x < first_seen (search_common_columns reg) y)
          = (first_seen ?all x < first_seen ?all y)"
    by (simp add: cc OrderedSet_set OrderedSet_order)
  have 4: "OrderedSet (search_common_columns reg) = search_common_columns reg"
    by (simp add: cc OrderedSet_idem)
  have 5: "search_common_columns [(k, \<lparr>cls_item_type = n, fields_of = search_common_columns reg\<rparr>)]
        = search_common_columns reg"
    by (simp add: search_common_columns_def extend_fields_def values_of_def OrderedSet_idem)
  have 6: "map (\<lambda>kv. fields_of (snd kv)) reg' = map (\<lambda>kv. fields_of (snd kv)) reg
        \<longrightarrow> search_common_columns reg' = search_common_columns reg"
  proof
    assume "map (\<lambda>kv. fields_of (snd kv)) reg' = map (\<lambda>kv. fields_of (snd kv)) reg"
    then have "map fields_of (values_of reg') = map fields_of (values_of reg)"
      by (simp add: values_of_def comp_def)
    then show "search_common_columns reg' = search_common_columns reg"
      by (simp add: search_common_columns_def extend_fields_concat)
  qed
  from 1 2 3 4 5 6 show ?thesis by blast
qed

theorem common_columns_ordered_union_witness:
  "''genre'' \<in> set (search_common_columns [(''1'', Book), (''2'', Magazine)])
   \<and> ''publisher'' \<in> set (search_common_columns [(''1'', Book), (''2'', Magazine)])
   \<and> first_seen (extend_fields (values_of [(''1'', Book), (''2'', Magazine)])) ''genre''
       < first_seen (extend_fields (values_of [(''1'', Book), (''2'', Magazine)])) ''publisher''
   \<and> first_seen (search_common_columns [(''1'', Book), (''2'', Magazine)]) ''genre''
       < first_seen (search_common_columns [(''1'', Book), (''2'', Magazine)]) ''publisher''
   \<and> map (\<lambda>kv. fields_of (snd kv)) [(''7'', Book), (''8'', Magazine)]
       = map (\<lambda>kv. fields_of (snd kv)) [(''1'', Book), (''2'', Magazine)]
   \<and> search_common_columns [(''7'', Book), (''8'', Magazine)]
       = search_common_columns [(''1'', Book), (''2'', Magazine)]
   \<and> search_common_columns [(''1'', Book), (''2'', Magazine)]
       = [''name'', ''author'', ''genre'', ''date'', ''publisher'']"
proof -
  let ?R = "[(''1'', Book), (''2'', Magazine)]"
  let ?R' = "[(''7'', Book), (''8'', Magazine)]"
  have cols: "search_common_columns ?R = [''name'', ''author'', ''genre'', ''date'', ''publisher'']"
    by (simp add: search_common_columns_def extend_fields_def values_of_def OrderedSet_def
        ordered_set_add_def Book_def Magazine_def)
  have g: "''genre'' \<in> set (search_common_columns ?R)"
    and p: "''publisher'' \<in> set (search_common_columns ?R)"
    by (simp_all add: cols)
  have seen: "first_seen (extend_fields (values_of ?R)) ''genre''
       < first_seen (extend_fields (values_of ?R)) ''publisher''"
    by (simp add: first_seen_def extend_fields_def values_of_def Book_def Magazine_def)
  have same: "map (\<lambda>kv. fields_of (snd kv)) ?R' = map (\<lambda>kv. fields_of (snd kv)) ?R"
    by simp
  from common_columns_ordered_union [of ?R "''1''" "''book''" ?R'] g p seen same cols
  show ?thesis by blast
qed

text \<open>
  Claim C10. The cross-category search, the listing of the items a user added and the
  transaction history each compute the unified column list with their own copy of the
  loop; on the same registry the three lists are equal, element by element and in order.
  On the registry of main.py the list is the eleven names below.
\<close>

theorem common_columns_same_in_three_methods:
  "search_common_columns reg = added_common_columns reg
   \<and> added_common_columns reg = history_common_columns reg
   \<and> history_common_columns item_types =
       [''name'', ''author'', ''genre'', ''date'', ''publisher'', ''journal_name'', ''volume'',
        ''issue'', ''format'', ''abstract'', ''keywords'']"
proof -
  have "history_common_columns item_types =
       [''name'', ''author'', ''genre'', ''date'', ''publisher'', ''journal_name'', ''volume'',
        ''issue'', ''format'', ''abstract'', ''keywords'']"
    by (simp add: history_common_columns_def values_of_def item_types_def
        OrderedSet_def ordered_set_add_def Book_def Magazine_def Journal_def Manga_def
        WesternComic_def ResearchPaper_def)
  then show ?thesis
    by (simp add: search_common_columns_def added_common_columns_def
        history_common_columns_def extend_fields_def)
qed


section \<open>Properties of the persistence gateway\<close>

lemma tx0: "transactions (setup_transactions_table new_database) = Some []"
  by (simp add: setup_transactions_table_def new_database_def)




section \<open>Properties of the transaction ledger\<close>

lemma active_fun: "(\<lambda>t. item_id t = iid \<and> item_type t = itype \<and> status t = ''borrowed'') = active itype iid"
  by (simp add: active_def fun_eq_iff)

lemma fetchall_active_Some:
  "transactions db = Some ts \<Longrightarrow> int64 iid \<Longrightarrow>
   fetchall (Select_active_borrows iid itype) db
     = ([], Inr (map transaction_tuple (filter (active itype iid) ts)))"
  by (simp add: fetchall_def sqlite_def active_fun)

lemma fetchall_active_unbound:
  "transactions db = Some ts \<Longrightarrow> \<not> int64 iid \<Longrightarrow>
   fetchall (Select_active_borrows iid itype) db = ([], Inl OverflowError)"
  by (simp add: fetchall_def sqlite_def)

lemma fetchall_active_None:
  "transactions db = None \<Longrightarrow>
   fetchall (Select_active_borrows iid itype) db
     = ([Error_fetching_data OperationalError], Inr [])"
  by (simp add: fetchall_def sqlite_def)

text \<open>The due date \<open>borrow_item\<close> computes: the day, or the OverflowError of \<open>datetime\<close>.\<close>

lemma due_date_valid:
  "valid_day now_due \<Longrightarrow> valid_day (now_due + days) \<Longrightarrow>
   timedelta days = Inr days \<and> datetime_plus now_due days = Inr (now_due + days)"
  by (simp add: timedelta_def datetime_plus_def valid_day_def)

lemma borrow_item_Some:
  "transactions db = Some ts \<Longrightarrow> int64 iid \<Longrightarrow>
   borrow_item u itype iid days now_borrow now_due db =
     (if filter (active itype iid) ts \<noteq> [] then ([Item_currently_borrowed], Inr (), db)
      else if \<not> (- 999999999 \<le> days \<and> days \<le> 999999999) \<or> \<not> valid_day (now_due + days)
        then ([Error_borrowing_item OverflowError], Inr (), db)
      else ([Item_borrowed_successfully (now_due + days)], Inr (),
            db\<lparr>transactions := Some (ts @ [\<lparr>id_tx = next_id ts, user_name = u, item_type = itype, item_id = iid,
                        borrow_date = now_borrow, due_date = now_due + days, return_date = None,
                        status = ''borrowed''\<rparr>])\<rparr>))"
  by (simp add: borrow_item_def fetchall_active_Some execute_def sqlite_def Let_def
      timedelta_def datetime_plus_def)

lemma borrow_item_unbound:
  "transactions db = Some ts \<Longrightarrow> \<not> int64 iid \<Longrightarrow>
   borrow_item u itype iid days now_borrow now_due db = ([], Inl OverflowError, db)"
  by (simp add: borrow_item_def fetchall_active_unbound)

lemma borrow_item_None:
  "transactions db = None \<Longrightarrow>
   snd (borrow_item u itype iid days now_borrow now_due db) = (Inr (), db)"
  by (simp add: borrow_item_def fetchall_active_None execute_def sqlite_def Let_def
      timedelta_def datetime_plus_def)

lemma return_item_Some:
  "transactions db = Some ts \<Longrightarrow> int64 tid \<Longrightarrow>
   return_item u tid today db =
     (if filter (\<lambda>t. id_tx t = tid \<and> user_name t = u \<and> status t = ''borrowed'') ts = []
      then ([No_active_borrow_found], Inr (), db)
      else ([Item_returned_successfully], Inr (),
            db\<lparr>transactions := Some (map (\<lambda>t. if id_tx t = tid
                           then t\<lparr>return_date := Some today, status := ''returned''\<rparr> else t) ts)\<rparr>))"
  by (simp add: return_item_def fetchall_def execute_def sqlite_def Let_def)

lemma return_item_unbound:
  "transactions db = Some ts \<Longrightarrow> \<not> int64 tid \<Longrightarrow>
   return_item u tid today db = ([], Inl OverflowError, db)"
  by (simp add: return_item_def fetchall_def sqlite_def)

lemma return_item_None:
  "transactions db = None \<Longrightarrow>
   return_item u tid today db =
     ([Error_fetching_data OperationalError, No_active_borrow_found], Inr (), db)"
  by (simp add: return_item_def fetchall_def sqlite_def Let_def)

lemma ledger_Some: "transactions db = Some ts \<Longrightarrow> ledger db = ts"
  by (simp add: ledger_def)

lemma ledger_None: "transactions db = None \<Longrightarrow> ledger db = []"
  by (simp add: ledger_def)

lemma active_new:
  "active itype' iid' \<lparr>id_tx = n, user_name = u, item_type = itype, item_id = iid,
      borrow_date = bd, due_date = dd, return_date = None, status = ''borrowed''\<rparr>
   = (itype' = itype \<and> iid' = iid)"
  by (auto simp: active_def)

text \<open>
  What a borrow does to the database: nothing, or (the table existing, the id fitting 64
  bits, the item having no active borrow) one new transaction of that item at the end.
\<close>

lemma borrow_item_database:
  "snd (snd (borrow_item u itype iid days now_borrow now_due db)) = db
   \<or> (\<exists>ts bd dd. transactions db = Some ts \<and> int64 iid \<and> filter (active itype iid) ts = []
        \<and> snd (snd (borrow_item u itype iid days now_borrow now_due db))
            = db\<lparr>transactions := Some (ts @ [\<lparr>id_tx = next_id ts, user_name = u,
                   item_type = itype, item_id = iid, borrow_date = bd, due_date = dd,
                   return_date = None, status = ''borrowed''\<rparr>])\<rparr>)"
proof (cases "transactions db")
  case None
  then show ?thesis by (simp add: borrow_item_None)
next
  case (Some ts)
  show ?thesis
  proof (cases "int64 iid")
    case False
    with Some show ?thesis by (simp add: borrow_item_unbound)
  next
    case True
    with Some show ?thesis by (auto simp add: borrow_item_Some)
  qed
qed

lemma borrow_item_keeps:
  assumes "at_most_one_active db"
  shows "at_most_one_active (snd (snd (borrow_item u itype iid days now_borrow now_due db)))"
proof -
  let ?db' = "snd (snd (borrow_item u itype iid days now_borrow now_due db))"
  from borrow_item_database [of u itype iid days now_borrow now_due db]
  consider "?db' = db"
    | ts bd dd where "transactions db = Some ts" "filter (active itype iid) ts = []"
        "?db' = db\<lparr>transactions := Some (ts @ [\<lparr>id_tx = next_id ts, user_name = u,
                   item_type = itype, item_id = iid, borrow_date = bd, due_date = dd,
                   return_date = None, status = ''borrowed''\<rparr>])\<rparr>"
    by blast
  then show ?thesis
  proof cases
    case 1
    with assms show ?thesis by simp
  next
    case 2
    have "active_count ?db' itype' iid' \<le> 1" for itype' iid'
    proof (cases "itype' = itype \<and> iid' = iid")
      case True
      with 2 show ?thesis by (simp add: active_count_def ledger_def active_new)
    next
      case False
      with 2 have "active_count ?db' itype' iid' = active_count db itype' iid'"
        by (auto simp add: active_count_def ledger_def active_new)
      with assms show ?thesis by (simp add: at_most_one_active_def)
    qed
    then show ?thesis by (simp add: at_most_one_active_def)
  qed
qed

lemma length_filter_close:
  "length (filter (active itype iid) (map (\<lambda>t. if id_tx t = tid
                           then t\<lparr>return_date := Some rd, status := ''returned''\<rparr> else t) ts))
   \<le> length (filter (active itype iid) ts)"
  by (induction ts) (auto simp: active_def)

text \<open>What a return does to the database: nothing, or it closes the rows of the id.\<close>

lemma return_item_database:
  "snd (snd (return_item u tid today db)) = db
   \<or> (\<exists>ts. transactions db = Some ts
        \<and> snd (snd (return_item u tid today db))
            = db\<lparr>transactions := Some (map (\<lambda>t. if id_tx t = tid
                     then t\<lparr>return_date := Some today, status := ''returned''\<rparr> else t) ts)\<rparr>)"
proof (cases "transactions db")
  case None
  then show ?thesis by (simp add: return_item_None)
next
  case (Some ts)
  show ?thesis
  proof (cases "int64 tid")
    case False
    with Some show ?thesis by (simp add: return_item_unbound)
  next
    case True
    with Some show ?thesis by (simp add: return_item_Some)
  qed
qed

lemma return_item_keeps:
  assumes "at_most_one_active db"
  shows "at_most_one_active (snd (snd (return_item u tid today db)))"
proof -
  let ?db' = "snd (snd (return_item u tid today db))"
  have "active_count ?db' itype iid \<le> active_count db itype iid" for itype iid
    using return_item_database [of u tid today db] length_filter_close [of itype iid tid today]
    by (auto simp add: active_count_def ledger_def)
  with assms show ?thesis
    unfolding at_most_one_active_def by (meson le_trans)
qed

lemma perform_keeps: "at_most_one_active db \<Longrightarrow> at_most_one_active (perform db a)"
  by (cases a) (simp_all add: borrow_item_keeps return_item_keeps)

lemma run_keeps: "at_most_one_active db \<Longrightarrow> at_most_one_active (run acts db)"
  unfolding run_def by (induction acts arbitrary: db) (simp_all add: perform_keeps)

text \<open>
  Every item id of the ledger fits 64 bits, along every run: a borrow of another id
  raises before it inserts.
\<close>

lemma perform_item_ids:
  assumes "\<forall>t \<in> set (ledger db). int64 (item_id t)"
  shows "\<forall>t \<in> set (ledger (perform db a)). int64 (item_id t)"
proof (cases a)
  case (Borrow u itype iid days now_borrow now_due)
  let ?db' = "snd (snd (borrow_item u itype iid days now_borrow now_due db))"
  from borrow_item_database [of u itype iid days now_borrow now_due db]
  consider "?db' = db"
    | ts bd dd where "transactions db = Some ts" "int64 iid"
        "?db' = db\<lparr>transactions := Some (ts @ [\<lparr>id_tx = next_id ts, user_name = u,
                   item_type = itype, item_id = iid, borrow_date = bd, due_date = dd,
                   return_date = None, status = ''borrowed''\<rparr>])\<rparr>"
    by blast
  then have "\<forall>t \<in> set (ledger ?db'). int64 (item_id t)"
  proof cases
    case 1
    with assms show ?thesis by simp
  next
    case 2
    from 2(1) assms have "\<forall>t \<in> set ts. int64 (item_id t)" by (simp add: ledger_def)
    with 2 show ?thesis by (simp add: ledger_def)
  qed
  with Borrow show ?thesis by simp
next
  case (Return u tid today)
  let ?db' = "snd (snd (return_item u tid today db))"
  from return_item_database [of u tid today db]
  consider "?db' = db"
    | ts where "transactions db = Some ts"
        "?db' = db\<lparr>transactions := Some (map (\<lambda>t. if id_tx t = tid
                     then t\<lparr>return_date := Some today, status := ''returned''\<rparr> else t) ts)\<rparr>"
    by blast
  then have "\<forall>t \<in> set (ledger ?db'). int64 (item_id t)"
  proof cases
    case 1
    with assms show ?thesis by simp
  next
    case 2
    from 2(1) assms have "\<forall>t \<in> set ts. int64 (item_id t)" by (simp add: ledger_def)
    with 2 show ?thesis by (auto simp add: ledger_def)
  qed
  with Return show ?thesis by simp
qed

lemma run_item_ids:
  "\<forall>t \<in> set (ledger db). int64 (item_id t) \<Longrightarrow>
   \<forall>t \<in> set (ledger (run acts db)). int64 (item_id t)"
  unfolding run_def
proof (induction acts arbitrary: db)
  case Nil
  then show ?case by simp
next
  case (Cons a acts)
  from perform_item_ids [OF Cons.prems, of a] have "\<forall>t \<in> set (ledger (perform db a)). int64 (item_id t)" .
  from Cons.IH [OF this] show ?case by simp
qed

lemma borrow_item_found:
  assumes "\<exists>t \<in> set (ledger db). active itype iid t"
  shows "snd (snd (borrow_item u itype iid days now_borrow now_due db)) = db
       \<and> (int64 iid \<longrightarrow>
            borrow_item u itype iid days now_borrow now_due db
              = ([Item_currently_borrowed], Inr (), db))"
proof (cases "transactions db")
  case None
  with assms show ?thesis by (simp add: ledger_def)
next
  case (Some ts)
  with assms have ne: "filter (active itype iid) ts \<noteq> []"
    by (auto simp: ledger_def filter_empty_conv)
  show ?thesis
  proof (cases "int64 iid")
    case False
    with Some show ?thesis by (simp add: borrow_item_unbound)
  next
    case True
    with Some ne show ?thesis by (simp add: borrow_item_Some)
  qed
qed

text \<open>
  Claim C1. From an empty ledger, after any sequence of borrow and return calls (by any
  users, at any times), the number of transactions with status borrowed for a given item
  type and item id is 0 or 1. Whenever the ledger holds such a transaction, a borrow of
  that item leaves the database as it is, and it prints "currently borrowed" and returns
  when the item id fits 64 bits, as every item id of a ledger grown from the empty one
  does: after any such sequence, a borrow of an item with an active borrow prints
  "currently borrowed" and inserts nothing.
\<close>

theorem at_most_one_active_borrow:
  "(ledger db = [] \<longrightarrow>
      active_count (run acts db) itype iid = 0 \<or> active_count (run acts db) itype iid = 1)
   \<and> ((\<exists>t \<in> set (ledger db). active itype iid t) \<longrightarrow>
        snd (snd (borrow_item u itype iid days now_borrow now_due db)) = db
        \<and> (int64 iid \<longrightarrow>
             borrow_item u itype iid days now_borrow now_due db
               = ([Item_currently_borrowed], Inr (), db)))
   \<and> (ledger db = [] \<and> (\<exists>t \<in> set (ledger (run acts db)). active itype iid t) \<longrightarrow>
        borrow_item u itype iid days now_borrow now_due (run acts db)
          = ([Item_currently_borrowed], Inr (), run acts db))"
proof -
  have 1: "active_count (run acts db) itype iid = 0 \<or> active_count (run acts db) itype iid = 1"
    if "ledger db = []"
  proof -
    from that have "at_most_one_active db"
      by (simp add: at_most_one_active_def active_count_def)
    then have "at_most_one_active (run acts db)" by (rule run_keeps)
    then have "active_count (run acts db) itype iid \<le> 1"
      by (simp add: at_most_one_active_def)
    then show ?thesis by linarith
  qed
  have 2: "snd (snd (borrow_item u itype iid days now_borrow now_due db)) = db
        \<and> (int64 iid \<longrightarrow>
             borrow_item u itype iid days now_borrow now_due db
               = ([Item_currently_borrowed], Inr (), db))"
    if "\<exists>t \<in> set (ledger db). active itype iid t"
    using that by (rule borrow_item_found)
  have 3: "borrow_item u itype iid days now_borrow now_due (run acts db)
          = ([Item_currently_borrowed], Inr (), run acts db)"
    if e: "ledger db = []" and a: "\<exists>t \<in> set (ledger (run acts db)). active itype iid t"
  proof -
    from e have "\<forall>t \<in> set (ledger db). int64 (item_id t)" by simp
    then have "\<forall>t \<in> set (ledger (run acts db)). int64 (item_id t)" by (rule run_item_ids)
    with a have "int64 iid" by (auto simp: active_def)
    with borrow_item_found [OF a] show ?thesis by simp
  qed
  from 1 2 3 show ?thesis by blast
qed

lemma first_borrow:
  "run [Borrow ''alice'' ''book'' 5 7 738886 738886] (setup_transactions_table new_database)
     = (setup_transactions_table new_database)\<lparr>transactions := Some
         [\<lparr>id_tx = 1, user_name = ''alice'', item_type = ''book'', item_id = 5,
           borrow_date = 738886, due_date = 738893, return_date = None,
           status = ''borrowed''\<rparr>]\<rparr>"
  by (simp add: run_def borrow_item_Some [OF tx0] int64_def valid_day_def next_id_def)

theorem at_most_one_active_borrow_witness:
  "ledger (setup_transactions_table new_database) = []
   \<and> active_count
        (run [Borrow ''alice'' ''book'' 5 7 738886 738886, Borrow ''bob'' ''book'' 5 7 738887 738887,
              Return ''alice'' 1 738890, Borrow ''bob'' ''book'' 5 7 738891 738891]
           (setup_transactions_table new_database)) ''book'' 5 = 1
   \<and> (\<exists>t \<in> set (ledger (run [Borrow ''alice'' ''book'' 5 7 738886 738886]
                           (setup_transactions_table new_database))). active ''book'' 5 t)
   \<and> int64 5
   \<and> borrow_item ''bob'' ''book'' 5 7 738887 738887
        (run [Borrow ''alice'' ''book'' 5 7 738886 738886] (setup_transactions_table new_database))
      = ([Item_currently_borrowed], Inr (),
         run [Borrow ''alice'' ''book'' 5 7 738886 738886] (setup_transactions_table new_database))"
proof -
  let ?db0 = "setup_transactions_table new_database"
  let ?b1 = "[Borrow ''alice'' ''book'' 5 7 738886 738886]"
  let ?db1 = "run ?b1 ?db0"
  let ?acts = "[Borrow ''alice'' ''book'' 5 7 738886 738886, Borrow ''bob'' ''book'' 5 7 738887 738887,
              Return ''alice'' 1 738890, Borrow ''bob'' ''book'' 5 7 738891 738891]"
  have e: "ledger ?db0 = []" by (simp add: ledger_def tx0)
  have l1: "ledger ?db1 = [\<lparr>id_tx = 1, user_name = ''alice'', item_type = ''book'', item_id = 5,
      borrow_date = 738886, due_date = 738893, return_date = None, status = ''borrowed''\<rparr>]"
    by (simp add: first_borrow ledger_def)
  have a: "\<exists>t \<in> set (ledger ?db1). active ''book'' 5 t"
    by (simp add: l1 active_def)
  have i: "int64 5" by (simp add: int64_def)
  have n: "active_count (run ?acts ?db0) ''book'' 5 \<noteq> 0"
    by (simp add: run_def active_count_def ledger_def active_def borrow_item_def return_item_def
        fetchall_def execute_def sqlite_def Let_def tx0 next_id_def int64_def valid_day_def
        timedelta_def datetime_plus_def)
  from at_most_one_active_borrow [of ?db0 ?acts "''book''" 5 "''bob''" 7 738887 738887] e n
  have c: "active_count (run ?acts ?db0) ''book'' 5 = 1" by simp
  have h: "ledger ?db0 = [] \<and> (\<exists>t \<in> set (ledger (run ?b1 ?db0)). active ''book'' 5 t)"
    using e a by simp
  have b: "borrow_item ''bob'' ''book'' 5 7 738887 738887 ?db1
      = ([Item_currently_borrowed], Inr (), ?db1)"
    by (rule mp [OF conjunct2 [OF conjunct2
          [OF at_most_one_active_borrow [of ?db0 ?b1 "''book''" 5 "''bob''" 7 738887 738887]]] h])
  from e c a i b show ?thesis by simp
qed




lemma same_id_same_row:
  "distinct (map id_tx ts) \<Longrightarrow> t \<in> set ts \<Longrightarrow> t' \<in> set ts \<Longrightarrow> id_tx t' = id_tx t \<Longrightarrow> t' = t"
  by (metis distinct_map inj_onD)

text \<open>
  The ids of the ledger stay distinct along every run: a borrow takes an id above all ids
  present, a return changes no id.
\<close>

lemma id_below_max: "t \<in> set ts \<Longrightarrow> id_tx t \<le> foldr max (map id_tx ts) 0"
  by (induction ts) auto

lemma next_id_fresh: "next_id ts \<notin> set (map id_tx ts)"
proof
  assume "next_id ts \<in> set (map id_tx ts)"
  then obtain t where "t \<in> set ts" "id_tx t = next_id ts" by auto
  with id_below_max [of t ts] show False by (simp add: next_id_def)
qed

lemma ids_after_close:
  "map id_tx (map (\<lambda>t. if id_tx t = tid
      then t\<lparr>return_date := Some rd, status := ''returned''\<rparr> else t) ts) = map id_tx ts"
  by (induction ts) auto

lemma perform_distinct_ids:
  assumes "distinct (map id_tx (ledger db))"
  shows "distinct (map id_tx (ledger (perform db a)))"
proof (cases a)
  case (Borrow u itype iid days now_borrow now_due)
  from borrow_item_database [of u itype iid days now_borrow now_due db] assms Borrow
  show ?thesis using next_id_fresh by (auto simp: ledger_def)
next
  case (Return u tid today)
  from return_item_database [of u tid today db] assms Return
  show ?thesis by (auto simp: ledger_def ids_after_close simp del: map_map)
qed

lemma run_distinct_ids:
  "distinct (map id_tx (ledger db)) \<Longrightarrow> distinct (map id_tx (ledger (run acts db)))"
  unfolding run_def by (induction acts arbitrary: db) (simp_all add: perform_distinct_ids)

text \<open>
  Claim C3, as the code has it. For a transaction id that fits 64 bits, \<open>return_item\<close>
  prints "no active borrow found" exactly when the ledger holds no transaction with the
  given id, the caller's user name and status borrowed, and then it returns with the
  database unchanged. Otherwise it prints the success message and the ledger is the old one
  with return date today and status returned on the transaction of that id, every other
  transaction as it was. In particular (ids being unique) it fails on a transaction of
  another user and on a transaction already returned.
\<close>

theorem return_item_needs_own_active_borrow:
  assumes "int64 tid"
  shows "(No_active_borrow_found \<in> set (fst (return_item u tid today db)))
      = (\<not> (\<exists>t \<in> set (ledger db). id_tx t = tid \<and> user_name t = u \<and> status t = ''borrowed''))
   \<and> (\<not> (\<exists>t \<in> set (ledger db). id_tx t = tid \<and> user_name t = u \<and> status t = ''borrowed'')
        \<longrightarrow> snd (return_item u tid today db) = (Inr (), db))
   \<and> ((\<exists>t \<in> set (ledger db). id_tx t = tid \<and> user_name t = u \<and> status t = ''borrowed'')
        \<longrightarrow> return_item u tid today db =
              ([Item_returned_successfully], Inr (),
               db\<lparr>transactions := Some (map
                  (\<lambda>t. if id_tx t = tid
                       then t\<lparr>return_date := Some today, status := ''returned''\<rparr> else t)
                  (ledger db))\<rparr>))
   \<and> (distinct (map id_tx (ledger db)) \<and> t \<in> set (ledger db) \<and> id_tx t = tid
        \<and> (user_name t \<noteq> u \<or> status t \<noteq> ''borrowed'')
        \<longrightarrow> No_active_borrow_found \<in> set (fst (return_item u tid today db))
            \<and> snd (return_item u tid today db) = (Inr (), db))"
proof -
  let ?own = "\<lambda>t. id_tx t = tid \<and> user_name t = u \<and> status t = ''borrowed''"
  let ?found = "\<exists>t \<in> set (ledger db). ?own t"
  have absent: "No_active_borrow_found \<in> set (fst (return_item u tid today db))
      \<and> snd (return_item u tid today db) = (Inr (), db)" if "\<not> ?found"
  proof (cases "transactions db")
    case None
    then show ?thesis by (simp add: return_item_None)
  next
    case (Some ts)
    with that have "filter ?own ts = []" by (auto simp: ledger_def filter_empty_conv)
    then show ?thesis using Some assms by (simp add: return_item_Some del: filter_False)
  qed
  have present: "return_item u tid today db =
              ([Item_returned_successfully], Inr (),
               db\<lparr>transactions := Some (map
                  (\<lambda>t. if id_tx t = tid
                       then t\<lparr>return_date := Some today, status := ''returned''\<rparr> else t)
                  (ledger db))\<rparr>)" if ?found
  proof (cases "transactions db")
    case None
    with that show ?thesis by (simp add: ledger_def)
  next
    case (Some ts)
    with that have "filter ?own ts \<noteq> []" by (auto simp: ledger_def filter_empty_conv)
    then show ?thesis using Some assms by (simp add: return_item_Some ledger_def)
  qed
  have iff: "(No_active_borrow_found \<in> set (fst (return_item u tid today db))) = (\<not> ?found)"
  proof (cases ?found)
    case True
    from present [OF True] True show ?thesis by simp
  next
    case False
    from absent [OF False] False show ?thesis by simp
  qed
  have other: "\<not> ?found"
    if "distinct (map id_tx (ledger db))" "t \<in> set (ledger db)" "id_tx t = tid"
       "user_name t \<noteq> u \<or> status t \<noteq> ''borrowed''"
  proof
    assume ?found
    then obtain t' where t': "t' \<in> set (ledger db)" "?own t'" by blast
    with that have "t' = t" using same_id_same_row [of "ledger db" t t'] by simp
    with t' that show False by auto
  qed
  from iff absent present other show ?thesis by blast
qed

lemma two_tx:
  "run [Borrow ''alice'' ''book'' 5 7 738886 738886, Borrow ''bob'' ''manga'' 2 7 738887 738887]
     (setup_transactions_table new_database) =
   (setup_transactions_table new_database)\<lparr>transactions := Some
     [\<lparr>id_tx = 1, user_name = ''alice'', item_type = ''book'', item_id = 5,
       borrow_date = 738886, due_date = 738893, return_date = None, status = ''borrowed''\<rparr>,
      \<lparr>id_tx = 2, user_name = ''bob'', item_type = ''manga'', item_id = 2,
       borrow_date = 738887, due_date = 738894, return_date = None, status = ''borrowed''\<rparr>]\<rparr>"
  by (simp add: run_def borrow_item_def fetchall_def execute_def sqlite_def Let_def tx0 next_id_def
      int64_def valid_day_def timedelta_def datetime_plus_def)

theorem return_item_needs_own_active_borrow_witness:
  "int64 2
   \<and> (\<exists>t \<in> set (ledger (run [Borrow ''alice'' ''book'' 5 7 738886 738886,
                             Borrow ''bob'' ''manga'' 2 7 738887 738887]
        (setup_transactions_table new_database))).
      id_tx t = 2 \<and> user_name t = ''bob'' \<and> status t = ''borrowed'')
   \<and> return_item ''bob'' 2 738890
        (run [Borrow ''alice'' ''book'' 5 7 738886 738886, Borrow ''bob'' ''manga'' 2 7 738887 738887]
          (setup_transactions_table new_database))
      = ([Item_returned_successfully], Inr (),
         (setup_transactions_table new_database)\<lparr>transactions := Some
           [\<lparr>id_tx = 1, user_name = ''alice'', item_type = ''book'', item_id = 5,
             borrow_date = 738886, due_date = 738893, return_date = None, status = ''borrowed''\<rparr>,
            \<lparr>id_tx = 2, user_name = ''bob'', item_type = ''manga'', item_id = 2,
             borrow_date = 738887, due_date = 738894, return_date = Some 738890,
             status = ''returned''\<rparr>]\<rparr>)
   \<and> \<not> (\<exists>t \<in> set (ledger (run [Borrow ''alice'' ''book'' 5 7 738886 738886,
                               Borrow ''bob'' ''manga'' 2 7 738887 738887]
        (setup_transactions_table new_database))).
      id_tx t = 2 \<and> user_name t = ''alice'' \<and> status t = ''borrowed'')
   \<and> No_active_borrow_found \<in> set (fst (return_item ''alice'' 2 738890
        (run [Borrow ''alice'' ''book'' 5 7 738886 738886, Borrow ''bob'' ''manga'' 2 7 738887 738887]
          (setup_transactions_table new_database))))
   \<and> snd (return_item ''alice'' 2 738890
        (run [Borrow ''alice'' ''book'' 5 7 738886 738886, Borrow ''bob'' ''manga'' 2 7 738887 738887]
          (setup_transactions_table new_database)))
      = (Inr (),
         run [Borrow ''alice'' ''book'' 5 7 738886 738886, Borrow ''bob'' ''manga'' 2 7 738887 738887]
          (setup_transactions_table new_database))"
proof -
  let ?db = "run [Borrow ''alice'' ''book'' 5 7 738886 738886,
                  Borrow ''bob'' ''manga'' 2 7 738887 738887]
        (setup_transactions_table new_database)"
  let ?t2 = "\<lparr>id_tx = 2, user_name = ''bob'', item_type = ''manga'', item_id = 2,
       borrow_date = 738887, due_date = 738894, return_date = None, status = ''borrowed''\<rparr>"
  let ?L = "[\<lparr>id_tx = 1, user_name = ''alice'', item_type = ''book'', item_id = 5,
       borrow_date = 738886, due_date = 738893, return_date = None, status = ''borrowed''\<rparr>, ?t2]"
  have db: "?db = (setup_transactions_table new_database)\<lparr>transactions := Some ?L\<rparr>"
    by (rule two_tx)
  have l: "ledger ?db = ?L"
    by (simp add: ledger_def two_tx)
  have i: "int64 2" by (simp add: int64_def)
  have bob: "\<exists>t \<in> set (ledger ?db). id_tx t = 2 \<and> user_name t = ''bob'' \<and> status t = ''borrowed''"
    by (simp add: l)
  have alice: "\<not> (\<exists>t \<in> set (ledger ?db). id_tx t = 2 \<and> user_name t = ''alice'' \<and> status t = ''borrowed'')"
    by (simp add: l)
  have d: "distinct (map id_tx (ledger ?db))" by (simp add: l)
  have m: "?t2 \<in> set (ledger ?db)" by (simp add: l)
  from return_item_needs_own_active_borrow [OF i, of "''bob''" 738890 ?db ?t2] bob
  have 1: "return_item ''bob'' 2 738890 ?db = ([Item_returned_successfully], Inr (),
               ?db\<lparr>transactions := Some (map
                  (\<lambda>t. if id_tx t = 2
                       then t\<lparr>return_date := Some 738890, status := ''returned''\<rparr> else t)
                  (ledger ?db))\<rparr>)"
    by blast
  have hyp: "distinct (map id_tx (ledger ?db)) \<and> ?t2 \<in> set (ledger ?db) \<and> id_tx ?t2 = 2
      \<and> (user_name ?t2 \<noteq> ''alice'' \<or> status ?t2 \<noteq> ''borrowed'')"
    using d m by simp
  have 2: "No_active_borrow_found \<in> set (fst (return_item ''alice'' 2 738890 ?db))
      \<and> snd (return_item ''alice'' 2 738890 ?db) = (Inr (), ?db)"
    by (rule mp [OF conjunct2 [OF conjunct2 [OF conjunct2
          [OF return_item_needs_own_active_borrow [OF i, of "''alice''" 738890 ?db ?t2]]]] hyp])
  have 3: "?db\<lparr>transactions := Some (map
                  (\<lambda>t. if id_tx t = 2
                       then t\<lparr>return_date := Some 738890, status := ''returned''\<rparr> else t)
                  (ledger ?db))\<rparr> = (setup_transactions_table new_database)\<lparr>transactions := Some
           [\<lparr>id_tx = 1, user_name = ''alice'', item_type = ''book'', item_id = 5,
             borrow_date = 738886, due_date = 738893, return_date = None, status = ''borrowed''\<rparr>,
            \<lparr>id_tx = 2, user_name = ''bob'', item_type = ''manga'', item_id = 2,
             borrow_date = 738887, due_date = 738894, return_date = Some 738890,
             status = ''returned''\<rparr>]\<rparr>"
    unfolding l by (subst db) simp
  from i bob alice 1 2 3 show ?thesis by simp
qed

text \<open>
  Claim C3 as stated fails at the transaction id \<open>2^63\<close>, which the prompt of the program
  accepts: no transaction of the ledger has that id, yet \<open>return_item\<close> prints nothing; the
  SELECT raises OverflowError, which leaves the method.
\<close>

theorem return_item_counterexample:
  "ledger (run [Borrow ''alice'' ''book'' 5 7 738886 738886] (setup_transactions_table new_database))
     = [\<lparr>id_tx = 1, user_name = ''alice'', item_type = ''book'', item_id = 5,
         borrow_date = 738886, due_date = 738893, return_date = None, status = ''borrowed''\<rparr>]
   \<and> return_item ''alice'' 9223372036854775808 738890
        (run [Borrow ''alice'' ''book'' 5 7 738886 738886] (setup_transactions_table new_database))
      = ([], Inl OverflowError,
         run [Borrow ''alice'' ''book'' 5 7 738886 738886] (setup_transactions_table new_database))"
proof -
  let ?db1 = "run [Borrow ''alice'' ''book'' 5 7 738886 738886] (setup_transactions_table new_database)"
  have l: "ledger ?db1 = [\<lparr>id_tx = 1, user_name = ''alice'', item_type = ''book'', item_id = 5,
         borrow_date = 738886, due_date = 738893, return_date = None, status = ''borrowed''\<rparr>]"
    by (simp add: first_borrow ledger_def)
  have t: "transactions ?db1 = Some [\<lparr>id_tx = 1, user_name = ''alice'', item_type = ''book'',
         item_id = 5, borrow_date = 738886, due_date = 738893, return_date = None,
         status = ''borrowed''\<rparr>]"
    by (simp add: first_borrow)
  have r: "return_item ''alice'' 9223372036854775808 738890 ?db1 = ([], Inl OverflowError, ?db1)"
    by (rule return_item_unbound [OF t]) (simp add: int64_def)
  from l r show ?thesis by blast
qed

section \<open>The persistence gateway on examples\<close>



section \<open>Properties of the search of one item type\<close>




lemma contains_ci_split: "contains_ci w s = (\<exists>a t. s = a @ t \<and> ci_prefix w t)"
proof (induction s)
  case Nil
  then show ?case by (cases w) auto
next
  case (Cons c cs)
  have "(\<exists>a t. c # cs = a @ t \<and> ci_prefix w t)
      = (ci_prefix w (c # cs) \<or> (\<exists>a t. cs = a @ t \<and> ci_prefix w t))"
    by (auto simp: Cons_eq_append_conv)
  with Cons show ?case by simp
qed


text \<open>
  \<open>contains_ci\<close> is the substring relation up to the case of ASCII letters: \<open>s\<close> contains
  \<open>w\<close> when \<open>s = a @ m @ c\<close> for some \<open>m\<close> that equals \<open>w\<close> after lowering both.
\<close>

lemma ci_prefix_split:
  "ci_prefix w t = (\<exists>m c. t = m @ c \<and> map ascii_lower m = map ascii_lower w)"
proof (induction w t rule: ci_prefix.induct)
  case (1 s)
  then show ?case by simp
next
  case (2 c cs)
  then show ?case by simp
next
  case (3 c cs d ds)
  have "(\<exists>m e. d # ds = m @ e \<and> map ascii_lower m = map ascii_lower (c # cs))
      = (ascii_lower c = ascii_lower d \<and> (\<exists>m e. ds = m @ e \<and> map ascii_lower m = map ascii_lower cs))"
  proof
    assume "\<exists>m e. d # ds = m @ e \<and> map ascii_lower m = map ascii_lower (c # cs)"
    then obtain m e where me: "d # ds = m @ e" "map ascii_lower m = map ascii_lower (c # cs)"
      by blast
    then obtain m' where m': "m = d # m'" by (cases m) auto
    with me have "ascii_lower c = ascii_lower d" "ds = m' @ e"
      "map ascii_lower m' = map ascii_lower cs" by auto
    then show "ascii_lower c = ascii_lower d
        \<and> (\<exists>m e. ds = m @ e \<and> map ascii_lower m = map ascii_lower cs)" by blast
  next
    assume "ascii_lower c = ascii_lower d
        \<and> (\<exists>m e. ds = m @ e \<and> map ascii_lower m = map ascii_lower cs)"
    then obtain m e where "ascii_lower c = ascii_lower d" "ds = m @ e"
      "map ascii_lower m = map ascii_lower cs" by blast
    then have "d # ds = (d # m) @ e \<and> map ascii_lower (d # m) = map ascii_lower (c # cs)"
      by simp
    then show "\<exists>m e. d # ds = m @ e \<and> map ascii_lower m = map ascii_lower (c # cs)"
      by blast
  qed
  with 3 show ?case by simp
qed

lemma contains_ci_substring:
  "contains_ci w s = (\<exists>a m c. s = a @ m @ c \<and> map ascii_lower m = map ascii_lower w)"
  by (auto simp: contains_ci_split ci_prefix_split)










lemma dune_values:
  "map (col_value dune) [''id'', ''name'', ''author'', ''genre'', ''date'', ''user_name'']
     = [Integer 1, Text ''Dune'', Text ''Frank Herbert'', Text ''SciFi'', Null, Text ''alice'']"
  by (simp add: col_value_def dune_def)




section \<open>Properties of the search across item types\<close>




















section \<open>Properties of registration and login\<close>












section \<open>The text of the queries that name the current user: where the name goes\<close>

lemma book_only_columns:
  "added_common_columns [(''1'', Book)] = [''name'', ''author'', ''genre'', ''date'']"
  "history_common_columns [(''1'', Book)] = [''name'', ''author'', ''genre'', ''date'']"
  by (simp_all add: added_common_columns_def history_common_columns_def values_of_def
      OrderedSet_def ordered_set_add_def Book_def)

lemmas book_only_columns_unfolded = book_only_columns [unfolded Book_def]

lemma indents:
  "indent 8 = ''        ''" "indent 12 = ''            ''" "indent 16 = ''                ''"
  by (simp_all add: indent_def eval_nat_numeral)

text \<open>
  Claim C8 does not hold of \<open>get_items_added_by_user\<close> and \<open>get_transaction_history\<close>: they
  bind no parameter at all and write the current user's name into the query text, between
  quotes. With the user name \<open>x' OR 'a'='a\<close> the text reads
  \<open>WHERE user_name = 'x' OR 'a'='a'\<close>, and two users get two different texts. The sibling
  \<open>get_borrowed_given_item\<close> binds the user's name and the search word as parameters: its
  text depends on neither.
\<close>

theorem user_name_interpolated_into_query_text:
  "snd (get_items_added_by_user_query u reg) = []
   \<and> snd (get_transaction_history_query u reg is_active) = []
   \<and> occurs_in (''WHERE user_name = 'x' OR 'a'='a'' @ [CHR 0x27])
        (fst (get_items_added_by_user_query ''x' OR 'a'='a'' [(''1'', Book)]))
   \<and> occurs_in (''AND t.user_name = 'x' OR 'a'='a'' @ [CHR 0x27])
        (fst (get_transaction_history_query ''x' OR 'a'='a'' [(''1'', Book)] False))
   \<and> fst (get_items_added_by_user_query ''alice'' [(''1'', Book)])
        \<noteq> fst (get_items_added_by_user_query ''bob'' [(''1'', Book)])
   \<and> fst (get_borrowed_given_item_query u itype w) = fst (get_borrowed_given_item_query u' itype w')
   \<and> snd (get_borrowed_given_item_query u itype w)
        = Text u # map (\<lambda>_. Text (''%'' @ w @ ''%'')) (fields_of itype)"
proof -
  have 1: "snd (get_items_added_by_user_query u reg) = []"
    by (simp add: get_items_added_by_user_query_def Let_def)
  have 2: "snd (get_transaction_history_query u reg is_active) = []"
    by (simp add: get_transaction_history_query_def Let_def)
  have 3: "occurs_in (''WHERE user_name = 'x' OR 'a'='a'' @ [CHR 0x27])
        (fst (get_items_added_by_user_query ''x' OR 'a'='a'' [(''1'', Book)]))"
    by (simp add: get_items_added_by_user_query_def Let_def book_only_columns_unfolded values_of_def
        Book_def newline_def indents)
  have 4: "occurs_in (''AND t.user_name = 'x' OR 'a'='a'' @ [CHR 0x27])
        (fst (get_transaction_history_query ''x' OR 'a'='a'' [(''1'', Book)] False))"
    by (simp add: get_transaction_history_query_def Let_def book_only_columns_unfolded values_of_def
        Book_def newline_def indents)
  have 5: "fst (get_items_added_by_user_query ''alice'' [(''1'', Book)])
        \<noteq> fst (get_items_added_by_user_query ''bob'' [(''1'', Book)])"
    by (simp add: get_items_added_by_user_query_def Let_def book_only_columns_unfolded values_of_def
        Book_def newline_def indents)
  have 6: "fst (get_borrowed_given_item_query u itype w) = fst (get_borrowed_given_item_query u' itype w')"
    by (simp add: get_borrowed_given_item_query_def Let_def)
  have 7: "snd (get_borrowed_given_item_query u itype w)
        = Text u # map (\<lambda>_. Text (''%'' @ w @ ''%'')) (fields_of itype)"
    by (simp add: get_borrowed_given_item_query_def Let_def)
  from 1 2 3 4 5 6 7 show ?thesis by blast
qed

end
